theory Spec2Isabelle
  imports Complex_Main
begin

section \<open>Python values used by \<open>edgarSECFrontEnd.py\<close>\<close>

text \<open>
  The program is a single Python module: nine concept fetchers (\<open>getRevenue\<close> ...
  \<open>getShares\<close>), the identifier lookup \<open>getCIK\<close>, and \<open>main\<close>, which derives the
  metrics and fills two tables.

  Numbers. The values are Python \<open>int\<close>s and \<open>float\<close>s. They are modelled as exact
  rationals: \<open>+\<close>, \<open>-\<close>, \<open>*\<close> are exact, \<open>/\<close> raises \<open>ZeroDivisionError\<close> on a zero
  divisor (both for \<open>int\<close> and for \<open>float\<close> operands), \<open>round(x, 2)\<close> rounds to the
  nearest hundredth with ties to even, and \<open>int(x)\<close> truncates towards zero. The
  binary representation error of IEEE doubles is not modelled.
\<close>

datatype exn =
    ConnectionError
  | JSONDecodeError
  | KeyError string
  | IndexError
  | ZeroDivisionError
  | TypeError
  | UnboundLocalError string

text \<open>
  A cell of a row. \<open>Str s\<close> is a Python string, \<open>Num x\<close> a number.
  \<open>Pct x\<close> stands for the string \<open>str(x) + "%"\<close>, \<open>PctF x\<close> for the string
  \<open>f"{x:,.2f}%"\<close> and \<open>Money x\<close> for the string \<open>f"${x:,.2f}"\<close>: the number that
  was formatted is kept, the digits are the display layer's.
\<close>

datatype cell = Str string | Num rat | Pct rat | PctF rat | Money rat

type_synonym row = "cell list"

definition round_half_even :: "rat \<Rightarrow> int" where
  "round_half_even x =
     (let f = \<lfloor>x\<rfloor>; r = x - of_int f
      in if r < 1 / 2 then f
         else if 1 / 2 < r then f + 1
         else if even f then f else f + 1)"

definition round2 :: "rat \<Rightarrow> rat" where
  \<comment> \<open>\<open>round(x, 2)\<close>\<close>
  "round2 x = of_int (round_half_even (x * 100)) / 100"

definition py_int :: "rat \<Rightarrow> int" where
  \<comment> \<open>\<open>int(x)\<close>: truncation towards zero\<close>
  "py_int x = (if 0 \<le> x then \<lfloor>x\<rfloor> else \<lceil>x\<rceil>)"

definition truediv :: "rat \<Rightarrow> rat \<Rightarrow> exn + rat" where
  \<comment> \<open>\<open>a / b\<close>\<close>
  "truediv a b = (if b = 0 then Inl ZeroDivisionError else Inr (a / b))"

definition float_of :: "cell \<Rightarrow> exn + rat" where
  \<comment> \<open>a cell read as a number; arithmetic on a string cell raises \<open>TypeError\<close>\<close>
  "float_of c = (case c of Num x \<Rightarrow> Inr x | _ \<Rightarrow> Inl TypeError)"

definition bind :: "exn + 'a \<Rightarrow> ('a \<Rightarrow> exn + 'b) \<Rightarrow> exn + 'b" where
  \<comment> \<open>sequencing: the first exception raised ends the evaluation\<close>
  "bind m f = (case m of Inl e \<Rightarrow> Inl e | Inr x \<Rightarrow> f x)"

subsection \<open>Strings\<close>

text \<open>
  Strings are ASCII strings. \<open>str.upper\<close> maps the lower-case letters to upper case,
  \<open>str.strip\<close> removes leading and trailing white space, \<open>str(n)\<close> of a natural number
  is its decimal numeral and \<open>zfill\<close> pads with zeros on the left.
\<close>

definition upper_char :: "char \<Rightarrow> char" where
  "upper_char c =
     (case map_of (zip ''abcdefghijklmnopqrstuvwxyz'' ''ABCDEFGHIJKLMNOPQRSTUVWXYZ'') c of
        Some u \<Rightarrow> u | None \<Rightarrow> c)"

definition upper :: "string \<Rightarrow> string" where
  "upper s = map upper_char s"

definition isspace :: "char \<Rightarrow> bool" where
  "isspace c = (c \<in> set [CHR 0x20, CHR 0x09, CHR 0x0A, CHR 0x0B, CHR 0x0C, CHR 0x0D,
                          CHR 0x1C, CHR 0x1D, CHR 0x1E, CHR 0x1F])"

definition strip :: "string \<Rightarrow> string" where
  "strip s = rev (dropWhile isspace (rev (dropWhile isspace s)))"

definition digit_char :: "nat \<Rightarrow> char" where
  "digit_char d = ''0123456789'' ! d"

fun str_nat :: "nat \<Rightarrow> string" where
  "str_nat n = (if n < 10 then [digit_char n] else str_nat (n div 10) @ [digit_char (n mod 10)])"

declare str_nat.simps [simp del]

definition zfill :: "nat \<Rightarrow> string \<Rightarrow> string" where
  "zfill w s = replicate (w - length s) CHR ''0'' @ s"



section \<open>The SEC endpoints\<close>

text \<open>
  An HTTP exchange either fails (\<open>requests.get\<close> raises, also on the 30 s timeout),
  returns a body that is not the expected JSON document, or returns the document.
  For a company concept the document is reduced to its \<open>units\<close> object: a dictionary
  from the unit key to the list of observations, each with the fields \<open>val\<close>, \<open>form\<close>
  and \<open>filed\<close> that the program selects. For the ticker file it is the list of
  entries in document order.
\<close>

datatype 'a response = NetworkFailure | Malformed | Json 'a

record observation =
  val :: rat
  form :: string
  filed :: string

record ticker_entry =
  cik_str :: nat
  ticker :: string

datatype concept =
    Revenues
  | CostOfRevenue
  | GrossProfit
  | SellingGeneralAndAdministrativeExpense
  | InterestExpense
  | OtherNonoperatingIncomeExpense
  | IncomeTaxesPaidNet
  | EffectiveIncomeTaxRateContinuingOperations
  | CommonStockSharesOutstanding

record world =
  company_tickers :: "ticker_entry list response"
  companyconcept :: "string \<Rightarrow> concept \<Rightarrow> (string \<rightharpoonup> observation list) response"

subsection \<open>\<open>getCIK\<close>\<close>

definition getCIK :: "world \<Rightarrow> string \<Rightarrow> exn + string option" where
  "getCIK w t =
     (case company_tickers w of
        NetworkFailure \<Rightarrow> Inl ConnectionError
      | Malformed \<Rightarrow> Inl JSONDecodeError
      | Json companyData \<Rightarrow>
          if companyData = [] then Inl (KeyError ''cik_str'')
          else
            let result = map (\<lambda>e. zfill 10 (str_nat (cik_str e)))
                           (filter (\<lambda>e. upper (ticker e) = upper t) companyData)
            in Inr (if result \<noteq> [] then Some (hd result) else None))"

subsection \<open>The concept fetchers\<close>

text \<open>
  The nine fetchers share one body. \<open>DataFrame.from_dict\<close> of an empty list has no
  columns, so selecting \<open>"form"\<close> raises \<open>KeyError\<close>. Otherwise the rows with form
  \<open>10-K\<close> are kept, \<open>iloc[-1:]\<close> keeps the last of them (none if there is none),
  \<open>to_numpy\<close> gives an array of shape \<open>(1, 3)\<close> or \<open>(0, 3)\<close>, and \<open>np.insert(row, 0,
  label)\<close>, called without an axis, flattens that array and puts the label in front.
\<close>

definition iloc_last :: "'a list \<Rightarrow> 'a list" where
  \<comment> \<open>\<open>df.iloc[-1:]\<close>\<close>
  "iloc_last xs = (if xs = [] then [] else [last xs])"

definition to_numpy :: "observation list \<Rightarrow> cell list list" where
  \<comment> \<open>the columns \<open>val\<close>, \<open>form\<close>, \<open>filed\<close> of each row\<close>
  "to_numpy df = map (\<lambda>ob. [Num (val ob), Str (form ob), Str (filed ob)]) df"

definition np_insert0 :: "cell list list \<Rightarrow> cell \<Rightarrow> row" where
  \<comment> \<open>\<open>np.insert(arr, 0, value)\<close> with \<open>axis=None\<close>\<close>
  "np_insert0 arr v = v # concat arr"

definition concept_row :: "world \<Rightarrow> string \<Rightarrow> concept \<Rightarrow> string \<Rightarrow> string \<Rightarrow> exn + row" where
  "concept_row w cik c unit label =
     (case companyconcept w cik c of
        NetworkFailure \<Rightarrow> Inl ConnectionError
      | Malformed \<Rightarrow> Inl JSONDecodeError
      | Json units \<Rightarrow>
          (case units unit of
             None \<Rightarrow> Inl (KeyError unit)
           | Some obs \<Rightarrow>
               if obs = [] then Inl (KeyError ''form'')
               else
                 let df_10k = filter (\<lambda>ob. form ob = ''10-K'') obs
                 in Inr (np_insert0 (to_numpy (iloc_last df_10k)) (Str label))))"

definition except_empty :: "exn + row \<Rightarrow> row" where
  \<comment> \<open>\<open>try: ... except Exception: return []\<close>\<close>
  "except_empty m = (case m of Inl e \<Rightarrow> [] | Inr r \<Rightarrow> r)"

definition getRevenue :: "world \<Rightarrow> string \<Rightarrow> row" where
  "getRevenue w cik = except_empty (concept_row w cik Revenues ''USD'' ''Revenue'')"

definition getCostRevenue :: "world \<Rightarrow> string \<Rightarrow> row" where
  "getCostRevenue w cik = except_empty (concept_row w cik CostOfRevenue ''USD'' ''Cost Of Revenue'')"

definition getGrossProfit :: "world \<Rightarrow> string \<Rightarrow> row" where
  "getGrossProfit w cik = except_empty (concept_row w cik GrossProfit ''USD'' ''Gross Profit'')"

definition getSGA :: "world \<Rightarrow> string \<Rightarrow> row" where
  "getSGA w cik =
     except_empty (concept_row w cik SellingGeneralAndAdministrativeExpense ''USD''
       ''Selling, General & Admin Costs'')"

definition getInterestExpense :: "world \<Rightarrow> string \<Rightarrow> row" where
  "getInterestExpense w cik =
     except_empty (concept_row w cik InterestExpense ''USD'' ''Interest Expense'')"

definition getIncomeExpense :: "world \<Rightarrow> string \<Rightarrow> row" where
  "getIncomeExpense w cik =
     except_empty
       (bind (concept_row w cik OtherNonoperatingIncomeExpense ''USD''
                ''Other Nonoperating Income (Expense), net'')
          (\<lambda>row. if length row \<le> 1 then Inl IndexError
                  else bind (float_of (row ! 1)) (\<lambda>x. Inr (row[1 := Num \<bar>x\<bar>]))))"

definition getIncomeTax :: "world \<Rightarrow> string \<Rightarrow> row" where
  "getIncomeTax w cik =
     except_empty (concept_row w cik IncomeTaxesPaidNet ''USD'' ''Income Taxes Paid, Net'')"

definition getTaxRate :: "world \<Rightarrow> string \<Rightarrow> row" where
  "getTaxRate w cik =
     except_empty
       (bind (concept_row w cik EffectiveIncomeTaxRateContinuingOperations ''pure''
                ''Effective Tax Rate'')
          (\<lambda>row. if length row \<le> 1 then Inl IndexError
                  else bind (float_of (row ! 1)) (\<lambda>x. Inr (row[1 := Pct (x * 100)]))))"

definition getShares :: "world \<Rightarrow> string \<Rightarrow> row" where
  "getShares w cik =
     except_empty (concept_row w cik CommonStockSharesOutstanding ''shares''
       ''Common Stock Shares Outstanding'')"

section \<open>\<open>main\<close>\<close>

text \<open>
  \<open>main\<close> is a sequence of statements over its local variables, the two tables and the
  page. The state below holds them, together with the list of HTTP requests issued so
  far. A row variable that has not been assigned yet is \<open>[]\<close>; the numeric locals that
  are assigned inside an \<open>if\<close> only are \<open>None\<close> until then, and reading one raises
  \<open>UnboundLocalError\<close>. A statement yields the exception it raised, if any, and the
  state at that moment; Streamlit then stops the script, so nothing after it runs.
\<close>

datatype request = GetTickers | GetConcept string concept

datatype event =
    St_error exn
  | St_divider
  | St_subheader string
  | St_success string
  | St_text_input string string
  | St_table "row list"
  | St_warning string

record state =
  requests :: "request list"
  events :: "event list"
  display_table :: "row list"
  spend_table :: "row list"
  revenue_row :: row
  cost_row :: row
  profit_row :: row
  sga_row :: row
  operating_profit_list :: row
  interest_row :: row
  income_row :: row
  income_tax_row :: row
  tax_row :: row
  net_income_row :: row
  net_income_val :: "int option"
  shares_row :: row
  income_share_list :: row
  oci_sga :: "rat option"
  oci_op_profit :: "rat option"
  oci_net_income :: "rat option"

type_synonym stmt = "state \<Rightarrow> exn option \<times> state"

definition assign :: "(state \<Rightarrow> state) \<Rightarrow> stmt" where
  "assign f s = (None, f s)"

definition seq :: "stmt \<Rightarrow> stmt \<Rightarrow> stmt" where
  "seq a b s = (case a s of (None, s') \<Rightarrow> b s' | (Some e, s') \<Rightarrow> (Some e, s'))"

definition guarded :: "(state \<Rightarrow> bool) \<Rightarrow> stmt \<Rightarrow> stmt" where
  "guarded c a s = (if c s then a s else (None, s))"

definition eval :: "(state \<Rightarrow> exn + 'a) \<Rightarrow> ('a \<Rightarrow> stmt) \<Rightarrow> stmt" where
  \<comment> \<open>evaluate an expression, then continue with its value\<close>
  "eval e k s = (case e s of Inl x \<Rightarrow> (Some x, s) | Inr v \<Rightarrow> k v s)"

fun block :: "stmt list \<Rightarrow> stmt" where
  "block [] = assign (\<lambda>s. s)"
| "block (a # as) = seq a (block as)"

definition local_var :: "string \<Rightarrow> 'a option \<Rightarrow> exn + 'a" where
  "local_var name v = (case v of None \<Rightarrow> Inl (UnboundLocalError name) | Some x \<Rightarrow> Inr x)"

definition append_display :: "row \<Rightarrow> stmt" where
  \<comment> \<open>\<open>display_table.loc[len(display_table)] = row\<close>\<close>
  "append_display r = assign (\<lambda>s. s\<lparr>display_table := display_table s @ [r]\<rparr>)"

definition append_spend :: "row \<Rightarrow> stmt" where
  \<comment> \<open>\<open>spend_table.loc[len(spend_table)] = np.array(row)\<close>\<close>
  "append_spend r = assign (\<lambda>s. s\<lparr>spend_table := spend_table s @ [r]\<rparr>)"

definition request :: "request \<Rightarrow> stmt" where
  "request q = assign (\<lambda>s. s\<lparr>requests := requests s @ [q]\<rparr>)"

definition emit :: "event \<Rightarrow> stmt" where
  "emit e = assign (\<lambda>s. s\<lparr>events := events s @ [e]\<rparr>)"

subsection \<open>The primary table (lines 60 to 156)\<close>

definition fetch_revenue :: "world \<Rightarrow> string \<Rightarrow> stmt" where
  "fetch_revenue w cik =
     block [request (GetConcept cik Revenues),
            assign (\<lambda>s. s\<lparr>revenue_row := getRevenue w cik\<rparr>),
            guarded (\<lambda>s. length (revenue_row s) = 4) (\<lambda>s. append_display (revenue_row s) s)]"

definition fetch_cost :: "world \<Rightarrow> string \<Rightarrow> stmt" where
  "fetch_cost w cik =
     block [request (GetConcept cik CostOfRevenue),
            assign (\<lambda>s. s\<lparr>cost_row := getCostRevenue w cik\<rparr>),
            guarded (\<lambda>s. length (cost_row s) = 4) (\<lambda>s. append_display (cost_row s) s)]"

definition gross_margin :: stmt where
  "gross_margin =
     guarded (\<lambda>s. length (revenue_row s) = 4 \<and> length (cost_row s) = 4
                \<and> last (revenue_row s) = last (cost_row s))
       (eval (\<lambda>s. bind (float_of (cost_row s ! 1)) (\<lambda>c.
                   bind (float_of (revenue_row s ! 1)) (\<lambda>r. truediv c r)))
          (\<lambda>q s. append_display
                   [Str ''Gross Margin'', Pct (round2 (q * 100)), revenue_row s ! 2,
                    last (revenue_row s)] s))"

definition fetch_profit :: "world \<Rightarrow> string \<Rightarrow> stmt" where
  "fetch_profit w cik =
     block [request (GetConcept cik GrossProfit),
            assign (\<lambda>s. s\<lparr>profit_row := getGrossProfit w cik\<rparr>),
            guarded (\<lambda>s. length (profit_row s) = 4) (\<lambda>s. append_display (profit_row s) s)]"

definition fetch_sga :: "world \<Rightarrow> string \<Rightarrow> stmt" where
  "fetch_sga w cik =
     block [request (GetConcept cik SellingGeneralAndAdministrativeExpense),
            assign (\<lambda>s. s\<lparr>sga_row := getSGA w cik\<rparr>),
            guarded (\<lambda>s. length (sga_row s) = 4) (\<lambda>s. append_display (sga_row s) s)]"

definition sga_margin :: stmt where
  "sga_margin =
     guarded (\<lambda>s. length (revenue_row s) = 4 \<and> length (sga_row s) = 4
                \<and> last (revenue_row s) = last (sga_row s))
       (eval (\<lambda>s. bind (float_of (sga_row s ! 1)) (\<lambda>g.
                   bind (float_of (revenue_row s ! 1)) (\<lambda>r. truediv g r)))
          (\<lambda>q s. append_display
                   [Str ''SGA Percent of Revenue'', Pct (round2 (q * 100)), revenue_row s ! 2,
                    last (revenue_row s)] s))"

definition operating_profit :: stmt where
  "operating_profit s =
     (if length (profit_row s) = 4 \<and> length (sga_row s) = 4
         \<and> last (profit_row s) = last (sga_row s)
      then eval (\<lambda>s. bind (float_of (profit_row s ! 1)) (\<lambda>p.
                      bind (float_of (sga_row s ! 1)) (\<lambda>g. Inr (round2 (p - g)))))
             (\<lambda>v s. block
                [assign (\<lambda>s. s\<lparr>operating_profit_list :=
                    [Str ''Operating Profit'', Num v, profit_row s ! 2, last (profit_row s)]\<rparr>),
                 (\<lambda>s. append_display (operating_profit_list s) s)] s) s
      else assign (\<lambda>s. s\<lparr>operating_profit_list := []\<rparr>) s)"

definition operating_margin :: stmt where
  "operating_margin =
     guarded (\<lambda>s. length (revenue_row s) = 4 \<and> length (operating_profit_list s) = 4
                \<and> last (revenue_row s) = last (operating_profit_list s))
       (eval (\<lambda>s. bind (float_of (operating_profit_list s ! 1)) (\<lambda>p.
                   bind (float_of (revenue_row s ! 1)) (\<lambda>r. truediv p r)))
          (\<lambda>q s. append_display
                   [Str ''Operating Margin'', Pct (round2 (q * 100)), revenue_row s ! 2,
                    last (revenue_row s)] s))"

definition fetch_interest :: "world \<Rightarrow> string \<Rightarrow> stmt" where
  "fetch_interest w cik =
     block [request (GetConcept cik InterestExpense),
            assign (\<lambda>s. s\<lparr>interest_row := getInterestExpense w cik\<rparr>),
            guarded (\<lambda>s. length (interest_row s) = 4) (\<lambda>s. append_display (interest_row s) s)]"

definition fetch_income :: "world \<Rightarrow> string \<Rightarrow> stmt" where
  "fetch_income w cik =
     block [request (GetConcept cik OtherNonoperatingIncomeExpense),
            assign (\<lambda>s. s\<lparr>income_row := getIncomeExpense w cik\<rparr>),
            guarded (\<lambda>s. length (income_row s) = 4) (\<lambda>s. append_display (income_row s) s)]"

definition fetch_income_tax :: "world \<Rightarrow> string \<Rightarrow> stmt" where
  "fetch_income_tax w cik =
     block [request (GetConcept cik IncomeTaxesPaidNet),
            assign (\<lambda>s. s\<lparr>income_tax_row := getIncomeTax w cik\<rparr>),
            guarded (\<lambda>s. length (income_tax_row s) = 4) (\<lambda>s. append_display (income_tax_row s) s)]"

definition fetch_tax :: "world \<Rightarrow> string \<Rightarrow> stmt" where
  "fetch_tax w cik =
     block [request (GetConcept cik EffectiveIncomeTaxRateContinuingOperations),
            assign (\<lambda>s. s\<lparr>tax_row := getTaxRate w cik\<rparr>),
            guarded (\<lambda>s. length (tax_row s) = 4) (\<lambda>s. append_display (tax_row s) s)]"

text \<open>
  \<open>net_income_row\<close> is a numpy array of strings: the integer \<open>net_income_val\<close> is
  stored as its decimal numeral and read back with \<open>float(net_income_row[1])\<close>. The
  model keeps the number.
\<close>

definition net_income_aligned :: "state \<Rightarrow> bool" where
  "net_income_aligned s =
     (length (operating_profit_list s) = 4 \<and> length (interest_row s) = 4
      \<and> length (income_row s) = 4 \<and> length (income_tax_row s) = 4
      \<and> last (operating_profit_list s) = last (interest_row s)
      \<and> last (interest_row s) = last (income_row s)
      \<and> last (income_row s) = last (income_tax_row s))"

definition net_income :: stmt where
  "net_income =
     block [assign (\<lambda>s. s\<lparr>net_income_row := []\<rparr>),
            guarded net_income_aligned
              (eval (\<lambda>s. bind (float_of (operating_profit_list s ! 1)) (\<lambda>a.
                          bind (float_of (interest_row s ! 1)) (\<lambda>b.
                          bind (float_of (income_row s ! 1)) (\<lambda>c.
                          bind (float_of (income_tax_row s ! 1)) (\<lambda>d.
                            Inr (py_int (round2 (a - b - c - d))))))))
                 (\<lambda>v. block
                    [assign (\<lambda>s. s\<lparr>net_income_val := Some v\<rparr>),
                     assign (\<lambda>s. s\<lparr>net_income_row :=
                        [Str ''Net Income'', Num (of_int v), operating_profit_list s ! 2,
                         last (operating_profit_list s)]\<rparr>),
                     (\<lambda>s. append_display (net_income_row s) s)]))]"

definition fetch_shares :: "world \<Rightarrow> string \<Rightarrow> stmt" where
  "fetch_shares w cik =
     block [request (GetConcept cik CommonStockSharesOutstanding),
            assign (\<lambda>s. s\<lparr>shares_row := getShares w cik\<rparr>),
            guarded (\<lambda>s. length (shares_row s) = 4) (\<lambda>s. append_display (shares_row s) s)]"

definition income_share :: stmt where
  "income_share =
     block [assign (\<lambda>s. s\<lparr>income_share_list := []\<rparr>),
            guarded (\<lambda>s. length (shares_row s) = 4 \<and> length (net_income_row s) = 4
                       \<and> last (shares_row s) = last (net_income_row s))
              (eval (\<lambda>s. bind (float_of (net_income_row s ! 1)) (\<lambda>n.
                          bind (float_of (shares_row s ! 1)) (\<lambda>d.
                          bind (truediv n d) (\<lambda>q. Inr (round2 q)))))
                 (\<lambda>v. block
                    [assign (\<lambda>s. s\<lparr>income_share_list :=
                        [Str ''Net Income per share - Diluted'', Num v, shares_row s ! 2,
                         last (shares_row s)]\<rparr>),
                     (\<lambda>s. append_display (income_share_list s) s)]))]"

definition show_display :: stmt where
  \<comment> \<open>\<open>st.table(display_table)\<close>\<close>
  "show_display s = emit (St_table (display_table s)) s"

definition new_display_table :: stmt where
  \<comment> \<open>\<open>display_table = pd.DataFrame(columns=column_names)\<close>\<close>
  "new_display_table = assign (\<lambda>s. s\<lparr>display_table := []\<rparr>)"

definition primary :: "world \<Rightarrow> string \<Rightarrow> stmt list" where
  "primary w cik =
     [new_display_table, fetch_revenue w cik, fetch_cost w cik, gross_margin,
      fetch_profit w cik, fetch_sga w cik, sga_margin,
      operating_profit, operating_margin,
      fetch_interest w cik, fetch_income w cik, fetch_income_tax w cik, fetch_tax w cik,
      net_income, fetch_shares w cik, income_share, show_display]"

subsection \<open>The comparison table (lines 160 to 206)\<close>

text \<open>
  \<open>oci_spend\<close> and \<open>tech_saved\<close> are assigned unconditionally from the form's
  \<open>competitor_cloud_spend\<close> alone; they are functions of it.
\<close>

definition oci_spend :: "rat \<Rightarrow> rat" where
  "oci_spend competitor_cloud_spend =
     round2 (competitor_cloud_spend * (53 / 100))
     - round2 (competitor_cloud_spend * (53 / 100) * (25 / 100))"

definition tech_saved :: "rat \<Rightarrow> rat" where
  "tech_saved competitor_cloud_spend =
     \<bar>oci_spend competitor_cloud_spend - competitor_cloud_spend\<bar>"

definition percent_sga :: "rat \<Rightarrow> stmt" where
  "percent_sga competitor_cloud_spend =
     guarded (\<lambda>s. length (sga_row s) = 4)
       (eval (\<lambda>s. bind (float_of (sga_row s ! 1)) (\<lambda>g.
                   bind (truediv competitor_cloud_spend g) (\<lambda>q. Inr (round2 (q * 100)))))
          (\<lambda>v. append_spend [Str ''% of SGA for Original Tech Spend'', PctF v]))"

definition show_oci_spend :: "rat \<Rightarrow> stmt" where
  "show_oci_spend competitor_cloud_spend =
     append_spend [Str ''OCI Spend (Including Support Rewards)'',
                   Money (oci_spend competitor_cloud_spend)]"

definition show_tech_saved :: "rat \<Rightarrow> stmt" where
  "show_tech_saved competitor_cloud_spend =
     append_spend [Str ''Amount Saved (Between OCI & Origional Cloud Spend)'',
                   Money (tech_saved competitor_cloud_spend)]"

definition sga_with_oci :: "rat \<Rightarrow> stmt" where
  "sga_with_oci competitor_cloud_spend =
     guarded (\<lambda>s. length (sga_row s) = 4)
       (eval (\<lambda>s. bind (float_of (sga_row s ! 1)) (\<lambda>g.
                   Inr (g - tech_saved competitor_cloud_spend)))
          (\<lambda>v. block [assign (\<lambda>s. s\<lparr>oci_sga := Some v\<rparr>),
                       append_spend [Str ''SGA when Using OCI'', Money v]]))"

definition sga_margin_with_oci :: stmt where
  "sga_margin_with_oci =
     guarded (\<lambda>s. length (revenue_row s) = 4 \<and> length (sga_row s) = 4
                   \<and> last (revenue_row s) = last (sga_row s))
       (eval (\<lambda>s. bind (local_var ''oci_sga'' (oci_sga s)) (\<lambda>a.
                   bind (float_of (revenue_row s ! 1)) (\<lambda>r.
                   bind (truediv a r) (\<lambda>q. Inr (round2 (q * 100))))))
          (\<lambda>oci_sga_margin. block
             [append_spend [Str ''SGA percent of Revenue (with OCI)'', PctF oci_sga_margin],
              eval (\<lambda>s. bind (float_of (sga_row s ! 1)) (\<lambda>g.
                         bind (float_of (revenue_row s ! 1)) (\<lambda>r.
                         bind (truediv g r) (\<lambda>q. Inr (round2 (q * 100) - oci_sga_margin)))))
                (\<lambda>sga_change.
                   append_spend [Str ''Change In SGA percent of Revenue'', PctF sga_change])]))"

definition operating_profit_with_oci :: "rat \<Rightarrow> stmt" where
  "operating_profit_with_oci competitor_cloud_spend =
     guarded (\<lambda>s. length (operating_profit_list s) = 4)
       (eval (\<lambda>s. bind (float_of (operating_profit_list s ! 1)) (\<lambda>p.
                   Inr (p - tech_saved competitor_cloud_spend)))
          (\<lambda>v. block
             [assign (\<lambda>s. s\<lparr>oci_op_profit := Some v\<rparr>),
              eval (\<lambda>s. local_var ''oci_sga'' (oci_sga s))
                (\<lambda>a. append_spend [Str ''Operating Profit'', Money a])]))"

definition operating_margin_with_oci :: stmt where
  "operating_margin_with_oci =
     guarded (\<lambda>s. length (revenue_row s) = 4 \<and> length (operating_profit_list s) = 4
                   \<and> last (revenue_row s) = last (operating_profit_list s))
       (eval (\<lambda>s. bind (local_var ''oci_op_profit'' (oci_op_profit s)) (\<lambda>a.
                   bind (float_of (revenue_row s ! 1)) (\<lambda>r.
                   bind (truediv a r) (\<lambda>q. Inr (round2 (q * 100))))))
          (\<lambda>oci_op_margin. block
             [append_spend [Str ''Operating Profit Margin (with OCI)'', PctF oci_op_margin],
              eval (\<lambda>s. bind (float_of (operating_profit_list s ! 1)) (\<lambda>p.
                         bind (float_of (revenue_row s ! 1)) (\<lambda>r.
                         bind (truediv p r) (\<lambda>q. Inr (round2 (q * 100) - oci_op_margin)))))
                (\<lambda>op_margin_change.
                   append_spend [Str ''Change In Operating Margin'', PctF op_margin_change])]))"

definition net_income_with_oci :: "rat \<Rightarrow> stmt" where
  "net_income_with_oci competitor_cloud_spend =
     guarded (\<lambda>s. length (net_income_row s) = 4)
       (eval (\<lambda>s. bind (local_var ''net_income_val'' (net_income_val s)) (\<lambda>n.
                   Inr (of_int n + tech_saved competitor_cloud_spend)))
          (\<lambda>v. block [assign (\<lambda>s. s\<lparr>oci_net_income := Some v\<rparr>),
                       append_spend [Str ''Net Income (with OCI)'', Money v]]))"

definition income_share_with_oci :: stmt where
  "income_share_with_oci =
     guarded (\<lambda>s. length (income_share_list s) = 4)
       (eval (\<lambda>s. bind (local_var ''oci_net_income'' (oci_net_income s)) (\<lambda>a.
                   bind (float_of (shares_row s ! 1)) (\<lambda>d.
                   bind (truediv a d) (\<lambda>q. Inr (round2 q)))))
          (\<lambda>oci_income_shares.
             eval (\<lambda>s. bind (local_var ''net_income_val'' (net_income_val s)) (\<lambda>n.
                        bind (float_of (shares_row s ! 1)) (\<lambda>d.
                        bind (truediv (of_int n) d) (\<lambda>q.
                          Inr \<bar>round2 q - oci_income_shares\<bar>))))
               (\<lambda>oci_shares_change. block
                  [append_spend [Str ''Net Income per share - Diluted (with OCI)'',
                                 Money oci_income_shares],
                   append_spend [Str ''Net Income per share - Diluted (change)'',
                                 Money oci_shares_change]])))"

definition show_spend :: stmt where
  \<comment> \<open>\<open>st.table(spend_table)\<close>\<close>
  "show_spend s = emit (St_table (spend_table s)) s"

definition new_spend_table :: stmt where
  \<comment> \<open>\<open>spend_table = pd.DataFrame(columns=["Metric", "Value"])\<close>\<close>
  "new_spend_table = assign (\<lambda>s. s\<lparr>spend_table := []\<rparr>)"

definition comparison :: "rat \<Rightarrow> stmt list" where
  "comparison competitor_cloud_spend =
     [new_spend_table, percent_sga competitor_cloud_spend,
      show_oci_spend competitor_cloud_spend,
      show_tech_saved competitor_cloud_spend,
      sga_with_oci competitor_cloud_spend,
      sga_margin_with_oci,
      operating_profit_with_oci competitor_cloud_spend,
      operating_margin_with_oci,
      net_income_with_oci competitor_cloud_spend,
      income_share_with_oci,
      show_spend]"

subsection \<open>The submission\<close>

definition init_state :: state where
  "init_state =
     \<lparr>requests = [], events = [], display_table = [], spend_table = [],
      revenue_row = [], cost_row = [], profit_row = [], sga_row = [],
      operating_profit_list = [], interest_row = [], income_row = [],
      income_tax_row = [], tax_row = [], net_income_row = [], net_income_val = None,
      shares_row = [], income_share_list = [], oci_sga = None, oci_op_profit = None,
      oci_net_income = None\<rparr>"

definition lookup :: "world \<Rightarrow> string \<Rightarrow> string option \<times> stmt list" where
  \<comment> \<open>\<open>try: cik = getCIK(clean) except Exception as e: st.error(...); cik = None\<close>\<close>
  "lookup w clean =
     (case getCIK w clean of
        Inl e \<Rightarrow> (None, [request GetTickers, emit (St_error e)])
      | Inr cik \<Rightarrow> (cik, [request GetTickers]))"

definition found :: "world \<Rightarrow> string \<Rightarrow> string \<Rightarrow> rat \<Rightarrow> stmt list" where
  "found w clean cik competitor_cloud_spend =
     [emit (St_success (''Ticker: '' @ clean)), emit (St_text_input ''CIK'' cik)]
     @ primary w cik @ comparison competitor_cloud_spend"

definition not_found :: "stmt list" where
  "not_found =
     [emit (St_warning ''Ticker not found. Please verify the symbol.''),
      emit (St_text_input ''CIK'' ''Not found'')]"

definition main :: "world \<Rightarrow> bool \<Rightarrow> string \<Rightarrow> rat \<Rightarrow> exn option \<times> state" where
  "main w submitted user_input competitor_cloud_spend =
     (if submitted then
        let clean = upper (strip user_input) in
        if clean \<noteq> [] then
          let (cik, looked_up) = lookup w clean in
          block (looked_up @ [emit St_divider, emit (St_subheader ''Results'')] @
                 (case cik of
                    None \<Rightarrow> not_found
                  | Some c \<Rightarrow>
                      if c \<noteq> [] then found w clean c competitor_cloud_spend
                      else not_found)) init_state
        else emit (St_warning ''Please enter a non-empty ticker.'') init_state
      else (None, init_state))"

section \<open>Notions used to state the properties\<close>

text \<open>
  What a concept endpoint offers for a unit: nothing usable (the request fails, the
  body is malformed, the unit key is missing or its observation list is empty), a
  non-empty list without any \<open>10-K\<close> observation, or a last \<open>10-K\<close> observation.
\<close>

datatype fetched = Failed | No10K | Latest observation

definition latest_10k :: "world \<Rightarrow> string \<Rightarrow> concept \<Rightarrow> string \<Rightarrow> fetched" where
  "latest_10k w cik c unit =
     (case companyconcept w cik c of
        NetworkFailure \<Rightarrow> Failed
      | Malformed \<Rightarrow> Failed
      | Json units \<Rightarrow>
          (case units unit of
             None \<Rightarrow> Failed
           | Some obs \<Rightarrow>
               if obs = [] then Failed
               else if filter (\<lambda>ob. form ob = ''10-K'') obs = [] then No10K
               else Latest (last (filter (\<lambda>ob. form ob = ''10-K'') obs))))"

fun fact_row :: "string \<Rightarrow> fetched \<Rightarrow> row" where
  "fact_row label Failed = []"
| "fact_row label No10K = [Str label]"
| "fact_row label (Latest ob) = [Str label, Num (val ob), Str ''10-K'', Str (filed ob)]"

definition lookup_row :: "string \<Rightarrow> row list \<Rightarrow> row option" where
  \<comment> \<open>the first row of a table whose metric is \<open>label\<close>\<close>
  "lookup_row label tbl = find (\<lambda>r. take 1 r = [Str label]) tbl"

subsection \<open>Sample responses\<close>

definition apple :: "ticker_entry list response" where
  "apple = Json [\<lparr>cik_str = 320193, ticker = ''AAPL''\<rparr>]"

definition filing :: "rat \<Rightarrow> string \<Rightarrow> string \<Rightarrow> observation" where
  "filing v f d = \<lparr>val = v, form = f, filed = d\<rparr>"


definition unit_key :: "concept \<Rightarrow> string" where
  "unit_key c =
     (case c of
        EffectiveIncomeTaxRateContinuingOperations \<Rightarrow> ''pure''
      | CommonStockSharesOutstanding \<Rightarrow> ''shares''
      | _ \<Rightarrow> ''USD'')"

definition annual :: "(concept \<Rightarrow> rat) \<Rightarrow> world" where
  \<comment> \<open>every concept has one annual observation, all filed on the same day\<close>
  "annual v =
     \<lparr>company_tickers = apple,
      companyconcept =
        (\<lambda>cik c. Json [unit_key c \<mapsto> [filing (v c) ''10-K'' ''2024-01-01'']])\<rparr>"

definition sample_values :: "concept \<Rightarrow> rat" where
  "sample_values c =
     (case c of
        Revenues \<Rightarrow> 1000
      | CostOfRevenue \<Rightarrow> 400
      | GrossProfit \<Rightarrow> 600
      | SellingGeneralAndAdministrativeExpense \<Rightarrow> 250
      | InterestExpense \<Rightarrow> 20
      | OtherNonoperatingIncomeExpense \<Rightarrow> - 15
      | IncomeTaxesPaidNet \<Rightarrow> 601 / 10
      | EffectiveIncomeTaxRateContinuingOperations \<Rightarrow> 21 / 100
      | CommonStockSharesOutstanding \<Rightarrow> 100)"

definition world_sample :: world where
  "world_sample = annual sample_values"

definition world_zero_revenue :: world where
  "world_zero_revenue = annual (sample_values(Revenues := 0))"

definition world_zero_sga :: world where
  "world_zero_sga = annual (sample_values(SellingGeneralAndAdministrativeExpense := 0))"

subsection \<open>Conditions and program parts named in the properties\<close>

definition listed :: "world \<Rightarrow> string \<Rightarrow> bool" where
  "listed w t =
     (case company_tickers w of
        Json companyData \<Rightarrow> upper t \<in> set (map (\<lambda>e. upper (ticker e)) companyData)
      | _ \<Rightarrow> False)"

definition gross_margin_part :: "world \<Rightarrow> string \<Rightarrow> stmt" where
  \<comment> \<open>lines 62 to 75: the first four statements of \<open>primary\<close>\<close>
  "gross_margin_part w cik =
     block [new_display_table, fetch_revenue w cik, fetch_cost w cik, gross_margin]"


definition operating_part :: stmt where
  \<comment> \<open>lines 94 to 104\<close>
  "operating_part = block [operating_profit, operating_margin]"

definition income_part :: "world \<Rightarrow> string \<Rightarrow> stmt" where
  \<comment> \<open>lines 124 to 149\<close>
  "income_part w cik = block [net_income, fetch_shares w cik, income_share]"

definition appended :: "state \<Rightarrow> state \<Rightarrow> row list" where
  \<comment> \<open>the rows that \<open>display_table\<close> gained between two states\<close>
  "appended s s' = drop (length (display_table s)) (display_table s')"

definition numeric :: "row \<Rightarrow> bool" where
  \<comment> \<open>a row of length 4 holds a number at index 1\<close>
  "numeric r = (length r \<noteq> 4 \<or> (case r ! 1 of Num x \<Rightarrow> True | _ \<Rightarrow> False))"

definition sample_state :: state where
  \<comment> \<open>the rows \<open>main\<close> holds at line 124 on the sample responses\<close>
  "sample_state =
     init_state
       \<lparr>revenue_row := getRevenue world_sample ''0000320193'',
        profit_row := getGrossProfit world_sample ''0000320193'',
        sga_row := getSGA world_sample ''0000320193'',
        operating_profit_list :=
          [Str ''Operating Profit'', Num 350, Str ''10-K'', Str ''2024-01-01''],
        interest_row := getInterestExpense world_sample ''0000320193'',
        income_row := getIncomeExpense world_sample ''0000320193'',
        income_tax_row := getIncomeTax world_sample ''0000320193''\<rparr>"

definition sample_state_misaligned :: state where
  \<comment> \<open>the same rows, with the Interest Expense filed a day earlier\<close>
  "sample_state_misaligned =
     sample_state\<lparr>interest_row :=
       [Str ''Interest Expense'', Num 20, Str ''10-K'', Str ''2023-12-31'']\<rparr>"

section \<open>Properties\<close>

subsection \<open>Rounding\<close>





subsection \<open>The competitor-spend markdown\<close>




subsection \<open>The rows the fetchers return\<close>

lemma last_filter: "filter P xs \<noteq> [] \<Longrightarrow> P (last (filter P xs))"
  using last_in_set [of "filter P xs"] by simp

lemma except_concept_row:
  "except_empty (concept_row w cik c unit label) = fact_row label (latest_10k w cik c unit)"
  using last_filter [of "\<lambda>ob. form ob = ''10-K''"]
  by (auto simp: concept_row_def latest_10k_def except_empty_def np_insert0_def to_numpy_def
      iloc_last_def Let_def split: response.splits option.splits)

lemma concept_row_cases:
  "concept_row w cik c unit label =
     (case latest_10k w cik c unit of
        Failed \<Rightarrow> concept_row w cik c unit label
      | f \<Rightarrow> Inr (fact_row label f))"
  using last_filter [of "\<lambda>ob. form ob = ''10-K''"]
  by (auto simp: concept_row_def latest_10k_def except_empty_def np_insert0_def to_numpy_def
      iloc_last_def Let_def split: response.splits option.splits)

lemma concept_row_failed:
  "latest_10k w cik c unit = Failed \<Longrightarrow> \<exists>e. concept_row w cik c unit label = Inl e"
  by (auto simp: concept_row_def latest_10k_def split: response.splits option.splits if_splits)

lemma getIncomeExpense_row:
  "getIncomeExpense w cik =
     (case latest_10k w cik OtherNonoperatingIncomeExpense ''USD'' of
        Latest ob \<Rightarrow> [Str ''Other Nonoperating Income (Expense), net'', Num \<bar>val ob\<bar>,
                       Str ''10-K'', Str (filed ob)]
      | _ \<Rightarrow> [])"
  using concept_row_failed [of w cik OtherNonoperatingIncomeExpense "''USD''"
      "''Other Nonoperating Income (Expense), net''"]
  apply (simp add: getIncomeExpense_def)
  apply (subst concept_row_cases)
  apply (auto simp: bind_def except_empty_def float_of_def split: fetched.splits)
  done

lemma getTaxRate_row:
  "getTaxRate w cik =
     (case latest_10k w cik EffectiveIncomeTaxRateContinuingOperations ''pure'' of
        Latest ob \<Rightarrow> [Str ''Effective Tax Rate'', Pct (val ob * 100), Str ''10-K'',
                       Str (filed ob)]
      | _ \<Rightarrow> [])"
  using concept_row_failed [of w cik EffectiveIncomeTaxRateContinuingOperations "''pure''"
      "''Effective Tax Rate''"]
  apply (simp add: getTaxRate_def)
  apply (subst concept_row_cases)
  apply (auto simp: bind_def except_empty_def float_of_def split: fetched.splits)
  done



subsection \<open>Running the statements on the sample responses\<close>

lemmas stmt_defs = assign_def seq_def guarded_def eval_def append_display_def append_spend_def
  request_def emit_def bind_def float_of_def truediv_def local_var_def

lemmas primary_defs = primary_def new_display_table_def fetch_revenue_def fetch_cost_def
  gross_margin_def fetch_profit_def fetch_sga_def sga_margin_def operating_profit_def
  operating_margin_def fetch_interest_def fetch_income_def fetch_income_tax_def fetch_tax_def
  net_income_def net_income_aligned_def fetch_shares_def income_share_def show_display_def

lemmas comparison_defs = comparison_def new_spend_table_def percent_sga_def show_oci_spend_def
  show_tech_saved_def sga_with_oci_def sga_margin_with_oci_def operating_profit_with_oci_def
  operating_margin_with_oci_def net_income_with_oci_def income_share_with_oci_def show_spend_def

lemmas main_defs = main_def lookup_def found_def not_found_def init_state_def

lemma block_append:
  "block (xs @ ys) s =
     (case block xs s of (None, s') \<Rightarrow> block ys s' | (Some e, s') \<Rightarrow> (Some e, s'))"
  by (induction xs arbitrary: s) (auto simp: seq_def assign_def split: prod.splits option.splits)

lemma upper_aapl: "upper (strip ''aapl'') = ''AAPL''"
  by (simp add: upper_def strip_def isspace_def upper_char_def)

lemma cik_apple: "zfill 10 (str_nat 320193) = ''0000320193''"
  by (simp add: zfill_def str_nat.simps digit_char_def) (simp add: eval_nat_numeral)

lemma getCIK_apple:
  "company_tickers w = apple \<Longrightarrow> getCIK w ''AAPL'' = Inr (Some ''0000320193'')"
  by (simp add: getCIK_def apple_def upper_def upper_char_def cik_apple)

lemma tickers_annual: "company_tickers (annual v) = apple"
  by (simp add: annual_def)

lemma latest_annual:
  "latest_10k (annual v) cik c (unit_key c) = Latest (filing (v c) ''10-K'' ''2024-01-01'')"
  by (simp add: latest_10k_def annual_def filing_def)

lemma rows_annual:
  "getRevenue (annual v) cik = [Str ''Revenue'', Num (v Revenues), Str ''10-K'', Str ''2024-01-01'']"
  "getCostRevenue (annual v) cik =
     [Str ''Cost Of Revenue'', Num (v CostOfRevenue), Str ''10-K'', Str ''2024-01-01'']"
  "getGrossProfit (annual v) cik =
     [Str ''Gross Profit'', Num (v GrossProfit), Str ''10-K'', Str ''2024-01-01'']"
  "getSGA (annual v) cik =
     [Str ''Selling, General & Admin Costs'', Num (v SellingGeneralAndAdministrativeExpense),
      Str ''10-K'', Str ''2024-01-01'']"
  "getInterestExpense (annual v) cik =
     [Str ''Interest Expense'', Num (v InterestExpense), Str ''10-K'', Str ''2024-01-01'']"
  "getIncomeTax (annual v) cik =
     [Str ''Income Taxes Paid, Net'', Num (v IncomeTaxesPaidNet), Str ''10-K'', Str ''2024-01-01'']"
  "getShares (annual v) cik =
     [Str ''Common Stock Shares Outstanding'', Num (v CommonStockSharesOutstanding),
      Str ''10-K'', Str ''2024-01-01'']"
  "getIncomeExpense (annual v) cik =
     [Str ''Other Nonoperating Income (Expense), net'',
      Num \<bar>v OtherNonoperatingIncomeExpense\<bar>, Str ''10-K'', Str ''2024-01-01'']"
  "getTaxRate (annual v) cik =
     [Str ''Effective Tax Rate'', Pct (v EffectiveIncomeTaxRateContinuingOperations * 100),
      Str ''10-K'', Str ''2024-01-01'']"
  using latest_annual [of v cik Revenues] latest_annual [of v cik CostOfRevenue]
    latest_annual [of v cik GrossProfit]
    latest_annual [of v cik SellingGeneralAndAdministrativeExpense]
    latest_annual [of v cik InterestExpense] latest_annual [of v cik IncomeTaxesPaidNet]
    latest_annual [of v cik CommonStockSharesOutstanding]
    latest_annual [of v cik OtherNonoperatingIncomeExpense]
    latest_annual [of v cik EffectiveIncomeTaxRateContinuingOperations]
  by (simp_all add: getRevenue_def getCostRevenue_def getGrossProfit_def getSGA_def
      getInterestExpense_def getIncomeTax_def getShares_def getIncomeExpense_row
      getTaxRate_row except_concept_row unit_key_def filing_def)

lemma floor_rat_divide_numeral:
  "\<lfloor>(numeral a :: rat) / numeral b\<rfloor> = numeral a div numeral b"
  using floor_divide_of_int_eq [of "numeral a" "numeral b", where ?'a = rat] by simp

lemma floor_rat_minus_divide_numeral:
  "\<lfloor>- ((numeral a :: rat) / numeral b)\<rfloor> = - numeral a div numeral b"
  using floor_divide_of_int_eq [of "- numeral a" "numeral b", where ?'a = rat] by simp

lemmas round_defs = round2_def round_half_even_def py_int_def Let_def
  floor_rat_divide_numeral floor_rat_minus_divide_numeral ceiling_def

lemma markdown_million: "oci_spend 1000000 = 397500" "tech_saved 1000000 = 602500"
  by code_simp+

text \<open>
  The primary table on responses that are all annual and filed on one day, with a
  non-zero Revenue and share count: no statement raises and every row is present.
\<close>

lemma primary_annual:
  assumes "v Revenues \<noteq> 0" and "v CommonStockSharesOutstanding \<noteq> 0"
  shows "(case block (primary (annual v) cik) s of
            (e, s') \<Rightarrow>
              e = None
              \<and> revenue_row s' = getRevenue (annual v) cik
              \<and> sga_row s' = getSGA (annual v) cik
              \<and> shares_row s' = getShares (annual v) cik
              \<and> operating_profit_list s' =
                  [Str ''Operating Profit'',
                   Num (round2 (v GrossProfit - v SellingGeneralAndAdministrativeExpense)),
                   Str ''10-K'', Str ''2024-01-01'']
              \<and> net_income_val s' =
                  Some (py_int (round2
                    (round2 (v GrossProfit - v SellingGeneralAndAdministrativeExpense)
                     - v InterestExpense - \<bar>v OtherNonoperatingIncomeExpense\<bar>
                     - v IncomeTaxesPaidNet)))
              \<and> length (net_income_row s') = 4
              \<and> length (income_share_list s') = 4
              \<and> oci_sga s' = oci_sga s \<and> oci_op_profit s' = oci_op_profit s
              \<and> oci_net_income s' = oci_net_income s)"
  using assms by (simp add: primary_defs stmt_defs rows_annual)

lemma main_annual:
  "main (annual v) True ''aapl'' spend =
     block (primary (annual v) ''0000320193'' @ comparison spend)
       (init_state\<lparr>requests := [GetTickers],
                   events := [St_divider, St_subheader ''Results'', St_success ''Ticker: AAPL'',
                              St_text_input ''CIK'' ''0000320193'']\<rparr>)"
  by (simp add: main_defs upper_aapl getCIK_apple tickers_annual stmt_defs)

subsection \<open>Division by a fetched zero\<close>

text \<open>
  C3 says that no combination of fetched values makes the pipeline raise. The divisions
  of lines 74, 91, 103, 148 and 164 are unguarded: with a Revenue of 0 filed on the same
  day as the Cost of Revenue, line 74 raises \<open>ZeroDivisionError\<close> after two fetches, and
  neither table is shown.
\<close>

theorem main_zero_revenue_raises:
  "(case main world_zero_revenue True ''aapl'' 1000000 of
      (e, s) \<Rightarrow>
        e = Some ZeroDivisionError
        \<and> requests s = [GetTickers, GetConcept ''0000320193'' Revenues,
                         GetConcept ''0000320193'' CostOfRevenue]
        \<and> display_table s = [[Str ''Revenue'', Num 0, Str ''10-K'', Str ''2024-01-01''],
                              [Str ''Cost Of Revenue'', Num 400, Str ''10-K'', Str ''2024-01-01'']]
        \<and> events s = [St_divider, St_subheader ''Results'', St_success ''Ticker: AAPL'',
                       St_text_input ''CIK'' ''0000320193''])"
  by (simp add: main_defs upper_aapl getCIK_apple tickers_annual world_zero_revenue_def
      primary_defs stmt_defs rows_annual sample_values_def)

text \<open>
  C9 says that the comparison table of every submission with a resolved CIK holds the
  OCI Spend and Amount Saved rows. With an SGA value of 0, line 164 divides the spend by
  it and raises before either row is appended: the table stays empty and is never shown.
  This is the defect of C3 again.
\<close>

theorem main_zero_sga_raises:
  "(case main world_zero_sga True ''aapl'' 1000000 of
      (e, s) \<Rightarrow> e = Some ZeroDivisionError \<and> spend_table s = [])"
proof -
  let ?v = "sample_values(SellingGeneralAndAdministrativeExpense := 0)"
  let ?s = "init_state\<lparr>requests := [GetTickers],
                   events := [St_divider, St_subheader ''Results'', St_success ''Ticker: AAPL'',
                              St_text_input ''CIK'' ''0000320193'']\<rparr>"
  obtain e s' where run: "block (primary (annual ?v) ''0000320193'') ?s = (e, s')"
    by (cases "block (primary (annual ?v) ''0000320193'') ?s")
  have "e = None" and "sga_row s' = getSGA (annual ?v) ''0000320193''"
    using primary_annual [of ?v "''0000320193''" ?s] run
    by (simp_all add: sample_values_def)
  then show ?thesis
    unfolding world_zero_sga_def main_annual block_append run
    by (simp add: comparison_defs stmt_defs rows_annual)
qed

subsection \<open>The comparison figures\<close>

text \<open>
  C4 says that the comparison re-derives the Operating Profit as the Operating Profit
  plus the amount saved. Line 185 subtracts the amount saved, and line 186 prints
  \<open>oci_sga\<close> under the label Operating Profit. On the sample responses (Gross Profit 600,
  SGA 250, hence Operating Profit 350, and a spend of 1,000,000, hence 602,500 saved)
  the local \<open>oci_op_profit\<close> is 350 - 602,500 and the row shows 250 - 602,500, where the
  claim has 350 + 602,500. The Net Income of line 196 does add the amount saved.
\<close>

theorem main_sample_operating_profit:
  "(case main world_sample True ''aapl'' 1000000 of
      (e, s) \<Rightarrow>
        e = None
        \<and> operating_profit_list s =
            [Str ''Operating Profit'', Num 350, Str ''10-K'', Str ''2024-01-01'']
        \<and> oci_sga s = Some (250 - 602500)
        \<and> oci_op_profit s = Some (350 - 602500)
        \<and> lookup_row ''Operating Profit'' (spend_table s)
            = Some [Str ''Operating Profit'', Money (250 - 602500)]
        \<and> oci_net_income s = Some (254 + 602500))"
proof -
  let ?s = "init_state\<lparr>requests := [GetTickers],
                   events := [St_divider, St_subheader ''Results'', St_success ''Ticker: AAPL'',
                              St_text_input ''CIK'' ''0000320193'']\<rparr>"
  obtain e s' where run: "block (primary (annual sample_values) ''0000320193'') ?s = (e, s')"
    by (cases "block (primary (annual sample_values) ''0000320193'') ?s")
  have "case (e, s') of (e, s') \<Rightarrow>
              e = None
              \<and> revenue_row s' = getRevenue (annual sample_values) ''0000320193''
              \<and> sga_row s' = getSGA (annual sample_values) ''0000320193''
              \<and> shares_row s' = getShares (annual sample_values) ''0000320193''
              \<and> operating_profit_list s' =
                  [Str ''Operating Profit'', Num 350, Str ''10-K'', Str ''2024-01-01'']
              \<and> net_income_val s' = Some 254
              \<and> length (net_income_row s') = 4
              \<and> length (income_share_list s') = 4
              \<and> oci_sga s' = oci_sga ?s \<and> oci_op_profit s' = oci_op_profit ?s
              \<and> oci_net_income s' = oci_net_income ?s"
    using primary_annual [of sample_values "''0000320193''" ?s] unfolding run
    by (simp add: sample_values_def round_defs)
  then show ?thesis
    unfolding world_sample_def main_annual block_append run
    by (simp add: comparison_defs stmt_defs rows_annual markdown_million lookup_row_def
        sample_values_def)
qed

subsection \<open>Unknown tickers\<close>

lemma filter_unlisted:
  "upper t \<notin> set (map (\<lambda>e. upper (ticker e)) es) \<Longrightarrow>
     filter (\<lambda>e. upper (ticker e) = upper t) es = []"
  by (induction es) auto

lemma lookup_unlisted:
  assumes "\<not> listed w t"
  shows "lookup w t =
           (case getCIK w t of
              Inl e \<Rightarrow> (None, [request GetTickers, emit (St_error e)])
            | Inr c \<Rightarrow> (None, [request GetTickers]))"
    and "\<And>es. company_tickers w = Json es \<Longrightarrow> es \<noteq> [] \<Longrightarrow> getCIK w t = Inr None"
  using assms filter_unlisted [of t]
  by (auto simp: lookup_def getCIK_def listed_def Let_def split: response.splits sum.splits)

text \<open>
  C8. A ticker that the identifier file does not list resolves to \<open>None\<close>: \<open>getCIK\<close>
  returns \<open>None\<close> when the file loads, and \<open>main\<close> sets \<open>cik = None\<close> when the lookup
  raises. \<open>main\<close> then shows the warning \<open>Ticker not found\<close> and the text \<open>Not found\<close>,
  and the only request issued is the one for the identifier file: no concept is fetched
  and both tables stay empty. (A blank input is rejected before any lookup.)
\<close>

theorem unknown_ticker:
  assumes "\<not> listed w (upper (strip user_input))" and "upper (strip user_input) \<noteq> []"
  shows "fst (lookup w (upper (strip user_input))) = None
         \<and> (\<forall>es. company_tickers w = Json es \<and> es \<noteq> [] \<longrightarrow>
                getCIK w (upper (strip user_input)) = Inr None)
         \<and> (case main w True user_input competitor_cloud_spend of
               (e, s) \<Rightarrow>
                 e = None
                 \<and> requests s = [GetTickers]
                 \<and> events s =
                     (case getCIK w (upper (strip user_input)) of
                        Inl x \<Rightarrow> [St_error x] | Inr c \<Rightarrow> [])
                     @ [St_divider, St_subheader ''Results'',
                        St_warning ''Ticker not found. Please verify the symbol.'',
                        St_text_input ''CIK'' ''Not found'']
                 \<and> display_table s = [] \<and> spend_table s = [])"
  using assms lookup_unlisted [of w "upper (strip user_input)"]
  by (auto simp: main_def Let_def not_found_def init_state_def stmt_defs split: sum.splits)

theorem unknown_ticker_witness:
  "\<not> listed world_sample (upper (strip ''msft '')) \<and> upper (strip ''msft '') \<noteq> []
   \<and> fst (lookup world_sample (upper (strip ''msft ''))) = None
   \<and> getCIK world_sample (upper (strip ''msft '')) = Inr None
   \<and> requests (snd (main world_sample True ''msft '' 1000000)) = [GetTickers]
   \<and> events (snd (main world_sample True ''msft '' 1000000)) =
       [St_divider, St_subheader ''Results'',
        St_warning ''Ticker not found. Please verify the symbol.'',
        St_text_input ''CIK'' ''Not found'']"
proof -
  have u: "upper (strip ''msft '') = ''MSFT''"
    by (simp add: upper_def strip_def isspace_def upper_char_def)
  have a: "\<not> listed world_sample (upper (strip ''msft ''))"
    unfolding u by (simp add: listed_def world_sample_def annual_def apple_def upper_def upper_char_def)
  have b: "upper (strip ''msft '') \<noteq> []" unfolding u by simp
  have c: "company_tickers world_sample = Json [\<lparr>cik_str = 320193, ticker = ''AAPL''\<rparr>]"
    by (simp add: world_sample_def annual_def apple_def)
  show ?thesis
    using unknown_ticker [OF a b, of 1000000] a b c
    by (auto split: prod.splits)
qed

subsection \<open>Gross Margin\<close>

lemma gross_margin_part_prefix: "block (take 4 (primary w cik)) = gross_margin_part w cik"
  by (simp add: primary_def gross_margin_part_def)






subsection \<open>Operating Profit and Operating Margin\<close>

lemma operating_part_prefix: "block (take 2 (drop 7 (primary w cik))) = operating_part"
  by (simp add: primary_def operating_part_def)

lemma sample_rows:
  "revenue_row sample_state = [Str ''Revenue'', Num 1000, Str ''10-K'', Str ''2024-01-01'']"
  "profit_row sample_state = [Str ''Gross Profit'', Num 600, Str ''10-K'', Str ''2024-01-01'']"
  "sga_row sample_state =
     [Str ''Selling, General & Admin Costs'', Num 250, Str ''10-K'', Str ''2024-01-01'']"
  "operating_profit_list sample_state =
     [Str ''Operating Profit'', Num 350, Str ''10-K'', Str ''2024-01-01'']"
  "interest_row sample_state = [Str ''Interest Expense'', Num 20, Str ''10-K'', Str ''2024-01-01'']"
  "income_row sample_state =
     [Str ''Other Nonoperating Income (Expense), net'', Num 15, Str ''10-K'', Str ''2024-01-01'']"
  "income_tax_row sample_state =
     [Str ''Income Taxes Paid, Net'', Num (601 / 10), Str ''10-K'', Str ''2024-01-01'']"
  "display_table sample_state = []"
  by (simp_all add: sample_state_def world_sample_def rows_annual sample_values_def
      init_state_def)

text \<open>
  C10. Lines 94 to 104, from any state. If they append an Operating Margin row, then the
  Revenue, Gross Profit and SGA rows are all present and their filed dates are
  identical: the Operating Profit row carries the filed date of the Gross Profit row,
  which equals that of the SGA row, and the Revenue row's date equals the Operating
  Profit row's.
\<close>

theorem operating_margin_dates:
  assumes "lookup_row ''Operating Margin'' (appended s (snd (operating_part s))) \<noteq> None"
  shows "length (revenue_row s) = 4 \<and> length (profit_row s) = 4 \<and> length (sga_row s) = 4
     \<and> last (profit_row s) = last (sga_row s)
     \<and> last (operating_profit_list (snd (operating_part s))) = last (profit_row s)
     \<and> last (revenue_row s) = last (operating_profit_list (snd (operating_part s)))
     \<and> last (revenue_row s) = last (profit_row s)
     \<and> last (revenue_row s) = last (sga_row s)"
  using assms
  by (auto simp: operating_part_def operating_profit_def operating_margin_def stmt_defs
      appended_def lookup_row_def split: if_splits sum.splits cell.splits)

theorem operating_margin_dates_witness:
  "lookup_row ''Operating Margin'' (appended sample_state (snd (operating_part sample_state)))
     = Some [Str ''Operating Margin'', Pct 35, Str ''10-K'', Str ''2024-01-01'']
   \<and> last (revenue_row sample_state) = last (profit_row sample_state)
   \<and> last (revenue_row sample_state) = last (sga_row sample_state)"
proof -
  have a: "lookup_row ''Operating Margin''
             (appended sample_state (snd (operating_part sample_state)))
           = Some [Str ''Operating Margin'', Pct 35, Str ''10-K'', Str ''2024-01-01'']"
    by (simp add: operating_part_def operating_profit_def operating_margin_def stmt_defs
        appended_def lookup_row_def sample_rows round_defs)
  then have "lookup_row ''Operating Margin''
               (appended sample_state (snd (operating_part sample_state))) \<noteq> None"
    by simp
  from operating_margin_dates [OF this] a show ?thesis
    by blast
qed

subsection \<open>Net Income\<close>

lemma numeric_Num: "numeric r \<Longrightarrow> length r = 4 \<Longrightarrow> \<exists>x. r ! 1 = Num x"
  by (auto simp: numeric_def split: cell.splits)

lemma net_income_aligned_update [simp]:
  "net_income_aligned (s\<lparr>net_income_row := r\<rparr>) = net_income_aligned s"
  by (simp add: net_income_aligned_def)

lemma net_income_present:
  assumes "net_income_aligned s"
    and "operating_profit_list s ! 1 = Num a" and "interest_row s ! 1 = Num b"
    and "income_row s ! 1 = Num c" and "income_tax_row s ! 1 = Num d"
  shows "net_income s =
           (None,
            s\<lparr>net_income_val := Some (py_int (round2 (a - b - c - d))),
              net_income_row :=
                [Str ''Net Income'', Num (of_int (py_int (round2 (a - b - c - d)))),
                 operating_profit_list s ! 2, last (operating_profit_list s)],
              display_table := display_table s @
                [[Str ''Net Income'', Num (of_int (py_int (round2 (a - b - c - d)))),
                  operating_profit_list s ! 2, last (operating_profit_list s)]]\<rparr>)"
  using assms by (simp add: net_income_def stmt_defs)

lemma net_income_absent:
  assumes "\<not> net_income_aligned s"
  shows "net_income s = (None, s\<lparr>net_income_row := []\<rparr>)"
  using assms by (simp add: net_income_def stmt_defs)

lemma net_income_run:
  assumes "numeric (operating_profit_list s)" and "numeric (interest_row s)"
    and "numeric (income_row s)" and "numeric (income_tax_row s)"
  shows "fst (net_income s) = None"
    and "net_income_aligned s \<Longrightarrow> length (net_income_row (snd (net_income s))) = 4"
    and "net_income_aligned s \<Longrightarrow>
           appended s (snd (net_income s)) = [net_income_row (snd (net_income s))]"
    and "net_income_aligned s \<Longrightarrow>
           take 1 (net_income_row (snd (net_income s))) = [Str ''Net Income'']"
    and "\<not> net_income_aligned s \<Longrightarrow>
           snd (net_income s) = s\<lparr>net_income_row := []\<rparr>"
proof -
  have n: "\<exists>a b c d. operating_profit_list s ! 1 = Num a \<and> interest_row s ! 1 = Num b
                \<and> income_row s ! 1 = Num c \<and> income_tax_row s ! 1 = Num d"
    if "net_income_aligned s"
    using assms that numeric_Num [of "operating_profit_list s"] numeric_Num [of "interest_row s"]
      numeric_Num [of "income_row s"] numeric_Num [of "income_tax_row s"]
    unfolding net_income_aligned_def by blast
  show "fst (net_income s) = None"
  proof (cases "net_income_aligned s")
    case True
    from n [OF True] obtain a b c d where
      "operating_profit_list s ! 1 = Num a" "interest_row s ! 1 = Num b"
      "income_row s ! 1 = Num c" "income_tax_row s ! 1 = Num d" by blast
    from net_income_present [OF True this] show ?thesis by simp
  next
    case False
    then show ?thesis by (simp add: net_income_absent)
  qed
  {
    assume al: "net_income_aligned s"
    from n [OF al] obtain a b c d where
      "operating_profit_list s ! 1 = Num a" "interest_row s ! 1 = Num b"
      "income_row s ! 1 = Num c" "income_tax_row s ! 1 = Num d" by blast
    note run = net_income_present [OF al this]
    show "length (net_income_row (snd (net_income s))) = 4"
      unfolding run by simp
    show "appended s (snd (net_income s)) = [net_income_row (snd (net_income s))]"
      unfolding run by (simp add: appended_def)
    show "take 1 (net_income_row (snd (net_income s))) = [Str ''Net Income'']"
      unfolding run by simp
  }
  show "\<not> net_income_aligned s \<Longrightarrow> snd (net_income s) = s\<lparr>net_income_row := []\<rparr>"
    by (simp add: net_income_absent)
qed

lemma seq_None: "a s = (None, s') \<Longrightarrow> seq a b s = b s'"
  by (simp add: seq_def)

lemma fetch_shares_run:
  "fst (fetch_shares w cik s) = None"
  "net_income_row (snd (fetch_shares w cik s)) = net_income_row s"
  "display_table (snd (fetch_shares w cik s)) =
     display_table s @ (if length (getShares w cik) = 4 then [getShares w cik] else [])"
  by (simp_all add: fetch_shares_def stmt_defs)

lemma income_share_absent:
  "net_income_row s = [] \<Longrightarrow> income_share s = (None, s\<lparr>income_share_list := []\<rparr>)"
  by (simp add: income_share_def stmt_defs)

lemma shares_label:
  "length (getShares w cik) = 4 \<Longrightarrow>
     take 1 (getShares w cik) = [Str ''Common Stock Shares Outstanding'']"
  unfolding getShares_def except_concept_row
  by (cases "latest_10k w cik CommonStockSharesOutstanding ''shares''") simp_all

lemma income_part_absent:
  assumes "\<not> net_income_aligned s"
  shows "fst (income_part w cik s) = None"
    and "income_share_list (snd (income_part w cik s)) = []"
    and "lookup_row ''Net Income per share - Diluted''
           (appended s (snd (income_part w cik s))) = None"
    and "lookup_row ''Net Income'' (appended s (snd (income_part w cik s))) = None"
proof -
  let ?s1 = "s\<lparr>net_income_row := []\<rparr>"
  let ?s2 = "snd (fetch_shares w cik ?s1)"
  have 1: "net_income s = (None, ?s1)"
    using assms by (rule net_income_absent)
  have 2: "fetch_shares w cik ?s1 = (None, ?s2)"
    using fetch_shares_run(1) [of w cik ?s1] by (cases "fetch_shares w cik ?s1") simp
  have 3: "income_share ?s2 = (None, ?s2\<lparr>income_share_list := []\<rparr>)"
    by (rule income_share_absent) (simp add: fetch_shares_run)
  have run: "income_part w cik s = (None, ?s2\<lparr>income_share_list := []\<rparr>)"
    unfolding income_part_def block.simps
    by (simp add: seq_None [of net_income s, OF 1] seq_None [of "fetch_shares w cik" ?s1, OF 2]
        seq_None [of income_share ?s2, OF 3] assign_def)
  have app: "appended s (?s2\<lparr>income_share_list := []\<rparr>) =
               (if length (getShares w cik) = 4 then [getShares w cik] else [])"
    by (simp add: appended_def fetch_shares_run)
  show "fst (income_part w cik s) = None"
    and "income_share_list (snd (income_part w cik s)) = []"
    unfolding run by simp_all
  show "lookup_row ''Net Income per share - Diluted''
           (appended s (snd (income_part w cik s))) = None"
    and "lookup_row ''Net Income'' (appended s (snd (income_part w cik s))) = None"
    unfolding run snd_conv app using shares_label [of w cik]
    by (simp_all add: lookup_row_def)
qed

lemma sample_rows_misaligned:
  "operating_profit_list sample_state_misaligned =
     [Str ''Operating Profit'', Num 350, Str ''10-K'', Str ''2024-01-01'']"
  "interest_row sample_state_misaligned =
     [Str ''Interest Expense'', Num 20, Str ''10-K'', Str ''2023-12-31'']"
  "income_row sample_state_misaligned =
     [Str ''Other Nonoperating Income (Expense), net'', Num 15, Str ''10-K'', Str ''2024-01-01'']"
  "income_tax_row sample_state_misaligned =
     [Str ''Income Taxes Paid, Net'', Num (601 / 10), Str ''10-K'', Str ''2024-01-01'']"
  by (simp_all add: sample_state_misaligned_def sample_rows)

lemma numeric_inputs:
  "numeric (getInterestExpense w cik)"
  "numeric (getIncomeExpense w cik)"
  "numeric (getIncomeTax w cik)"
  "fst (operating_profit s) = None \<Longrightarrow>
     numeric (operating_profit_list (snd (operating_profit s)))"
proof -
  show "numeric (getInterestExpense w cik)"
    unfolding getInterestExpense_def except_concept_row
    by (cases "latest_10k w cik InterestExpense ''USD''") (simp_all add: numeric_def)
  show "numeric (getIncomeExpense w cik)"
    unfolding getIncomeExpense_row
    by (cases "latest_10k w cik OtherNonoperatingIncomeExpense ''USD''")
       (simp_all add: numeric_def)
  show "numeric (getIncomeTax w cik)"
    unfolding getIncomeTax_def except_concept_row
    by (cases "latest_10k w cik IncomeTaxesPaidNet ''USD''") (simp_all add: numeric_def)
  show "fst (operating_profit s) = None \<Longrightarrow>
          numeric (operating_profit_list (snd (operating_profit s)))"
    by (auto simp: operating_profit_def stmt_defs numeric_def
        split: sum.splits cell.splits if_splits)
qed


text \<open>
  C1. Line 124 onwards, from any state whose four input rows hold numbers at index 1
  (as the rows of the three fetchers and the Operating Profit row of line 95 do, see
  \<open>numeric_inputs\<close>). The Net Income statement does not
  raise, and it produces the Net Income row if and only if the Operating Profit,
  Interest Expense, Other Income/Expense and Income Taxes rows all have length 4 and
  share one filed date. Otherwise \<open>net_income_row\<close> stays empty, and after the share
  count is fetched the per-share statement leaves \<open>income_share_list\<close> empty as well:
  neither a Net Income row nor a Net Income per share row is appended.
\<close>

theorem net_income_gate:
  assumes "numeric (operating_profit_list s)" and "numeric (interest_row s)"
    and "numeric (income_row s)" and "numeric (income_tax_row s)"
  shows "fst (net_income s) = None
     \<and> (length (net_income_row (snd (net_income s))) = 4) = net_income_aligned s
     \<and> (lookup_row ''Net Income'' (appended s (snd (net_income s))) \<noteq> None)
         = net_income_aligned s
     \<and> (\<not> net_income_aligned s \<longrightarrow>
           net_income_row (snd (net_income s)) = []
           \<and> fst (income_part w cik s) = None
           \<and> income_share_list (snd (income_part w cik s)) = []
           \<and> lookup_row ''Net Income'' (appended s (snd (income_part w cik s))) = None
           \<and> lookup_row ''Net Income per share - Diluted''
                (appended s (snd (income_part w cik s))) = None)"
proof (cases "net_income_aligned s")
  case True
  note r = net_income_run [OF assms]
  have "lookup_row ''Net Income'' (appended s (snd (net_income s))) \<noteq> None"
    unfolding r(3) [OF True] using r(4) [OF True] by (simp add: lookup_row_def)
  then show ?thesis
    using True r(1) r(2) [OF True] by simp
next
  case False
  note e = income_part_absent [OF False, of w cik]
  have run: "net_income s = (None, s\<lparr>net_income_row := []\<rparr>)"
    using False by (rule net_income_absent)
  have "appended s (snd (net_income s)) = []"
    unfolding run by (simp add: appended_def)
  then show ?thesis
    using False e by (simp add: run lookup_row_def)
qed

theorem net_income_gate_witness:
  "net_income_aligned sample_state
   \<and> length (net_income_row (snd (net_income sample_state))) = 4
   \<and> lookup_row ''Net Income'' (appended sample_state (snd (net_income sample_state))) \<noteq> None
   \<and> \<not> net_income_aligned sample_state_misaligned
   \<and> net_income_row (snd (net_income sample_state_misaligned)) = []
   \<and> lookup_row ''Net Income per share - Diluted''
        (appended sample_state_misaligned
           (snd (income_part world_sample ''0000320193'' sample_state_misaligned))) = None"
proof -
  have a: "net_income_aligned sample_state"
    by (simp add: net_income_aligned_def sample_rows)
  have b: "\<not> net_income_aligned sample_state_misaligned"
    by (simp add: net_income_aligned_def sample_rows_misaligned)
  have n: "numeric (operating_profit_list sample_state)" "numeric (interest_row sample_state)"
    "numeric (income_row sample_state)" "numeric (income_tax_row sample_state)"
    by (simp_all add: numeric_def sample_rows)
  have m: "numeric (operating_profit_list sample_state_misaligned)"
    "numeric (interest_row sample_state_misaligned)"
    "numeric (income_row sample_state_misaligned)"
    "numeric (income_tax_row sample_state_misaligned)"
    by (simp_all add: numeric_def sample_rows_misaligned)
  show ?thesis
    using net_income_gate [OF n, of world_sample "''0000320193''"]
      net_income_gate [OF m, of world_sample "''0000320193''"] a b
    by blast
qed



end
